theory Spec2Isabelle
  imports Complex_Main
begin

section \<open>JavaScript numbers\<close>

text \<open>
  A JavaScript number is modelled as \<open>NaN\<close>, one of the two infinities, or a finite value.
  Finite values are exact reals: the rounding error and the overflow of IEEE doubles and the
  sign of zero are abstracted away, while the propagation of \<open>NaN\<close> and of the infinities
  through the arithmetic follows ECMAScript (a zero divisor counts as \<open>+0\<close>).
\<close>

datatype jsnum = NaN | NInf | Num real | PInf

instantiation jsnum :: "{plus, minus, times, inverse}"
begin

fun plus_jsnum :: "jsnum \<Rightarrow> jsnum \<Rightarrow> jsnum" where
  "NaN + _ = NaN"
| "_ + NaN = NaN"
| "PInf + NInf = NaN"
| "NInf + PInf = NaN"
| "PInf + _ = PInf"
| "_ + PInf = PInf"
| "NInf + _ = NInf"
| "_ + NInf = NInf"
| "Num a + Num b = Num (a + b)"

fun minus_jsnum :: "jsnum \<Rightarrow> jsnum \<Rightarrow> jsnum" where
  "NaN - _ = NaN"
| "_ - NaN = NaN"
| "PInf - PInf = NaN"
| "NInf - NInf = NaN"
| "PInf - _ = PInf"
| "_ - PInf = NInf"
| "NInf - _ = NInf"
| "_ - NInf = PInf"
| "Num a - Num b = Num (a - b)"

fun times_jsnum :: "jsnum \<Rightarrow> jsnum \<Rightarrow> jsnum" where
  "NaN * _ = NaN"
| "_ * NaN = NaN"
| "PInf * PInf = PInf"
| "PInf * NInf = NInf"
| "NInf * PInf = NInf"
| "NInf * NInf = PInf"
| "PInf * Num b = (if b = 0 then NaN else if 0 < b then PInf else NInf)"
| "NInf * Num b = (if b = 0 then NaN else if 0 < b then NInf else PInf)"
| "Num a * PInf = (if a = 0 then NaN else if 0 < a then PInf else NInf)"
| "Num a * NInf = (if a = 0 then NaN else if 0 < a then NInf else PInf)"
| "Num a * Num b = Num (a * b)"

fun divide_jsnum :: "jsnum \<Rightarrow> jsnum \<Rightarrow> jsnum" where
  "divide_jsnum NaN _ = NaN"
| "divide_jsnum _ NaN = NaN"
| "divide_jsnum PInf PInf = NaN"
| "divide_jsnum PInf NInf = NaN"
| "divide_jsnum NInf PInf = NaN"
| "divide_jsnum NInf NInf = NaN"
| "divide_jsnum PInf (Num b) = (if b < 0 then NInf else PInf)"
| "divide_jsnum NInf (Num b) = (if b < 0 then PInf else NInf)"
| "divide_jsnum (Num a) PInf = Num 0"
| "divide_jsnum (Num a) NInf = Num 0"
| "divide_jsnum (Num a) (Num b) =
     (if b = 0 then (if a = 0 then NaN else if 0 < a then PInf else NInf)
      else Num (a / b))"

definition inverse_jsnum :: "jsnum \<Rightarrow> jsnum" where
  "inverse_jsnum a = Num 1 div a"

instance ..

end

text \<open>The global \<open>isNaN\<close> and the operators \<open>===\<close> and \<open>>\<close> on numbers.\<close>

definition isNaN :: "jsnum \<Rightarrow> bool" where
  "isNaN a = (a = NaN)"

definition strict_eq :: "jsnum \<Rightarrow> jsnum \<Rightarrow> bool" where
  "strict_eq a b = (a \<noteq> NaN \<and> b \<noteq> NaN \<and> a = b)"

fun js_gt :: "jsnum \<Rightarrow> jsnum \<Rightarrow> bool" where
  "js_gt NaN _ = False"
| "js_gt _ NaN = False"
| "js_gt _ PInf = False"
| "js_gt PInf _ = True"
| "js_gt NInf _ = False"
| "js_gt _ NInf = True"
| "js_gt (Num a) (Num b) = (b < a)"

text \<open>The functions of the \<open>Math\<close> object that the source calls.\<close>

definition Math_PI :: jsnum where
  "Math_PI = Num pi"

fun Math_cos :: "jsnum \<Rightarrow> jsnum" where
  "Math_cos (Num a) = Num (cos a)"
| "Math_cos _ = NaN"

fun Math_sin :: "jsnum \<Rightarrow> jsnum" where
  "Math_sin (Num a) = Num (sin a)"
| "Math_sin _ = NaN"

fun Math_acos :: "jsnum \<Rightarrow> jsnum" where
  "Math_acos (Num a) = (if a < -1 \<or> 1 < a then NaN else Num (arccos a))"
| "Math_acos _ = NaN"

fun Math_round :: "jsnum \<Rightarrow> jsnum" where
  "Math_round (Num a) = Num (of_int \<lfloor>a + 1 / 2\<rfloor>)"
| "Math_round a = a"

fun Math_max :: "jsnum \<Rightarrow> jsnum \<Rightarrow> jsnum" where
  "Math_max NaN _ = NaN"
| "Math_max _ NaN = NaN"
| "Math_max PInf _ = PInf"
| "Math_max _ PInf = PInf"
| "Math_max NInf b = b"
| "Math_max a NInf = a"
| "Math_max (Num a) (Num b) = Num (max a b)"

fun Math_min :: "jsnum \<Rightarrow> jsnum \<Rightarrow> jsnum" where
  "Math_min NaN _ = NaN"
| "Math_min _ NaN = NaN"
| "Math_min NInf _ = NInf"
| "Math_min _ NInf = NInf"
| "Math_min PInf b = b"
| "Math_min a PInf = a"
| "Math_min (Num a) (Num b) = Num (min a b)"

text \<open>
  A property that may be absent reads as \<open>undefined\<close>, here \<open>None\<close>; in arithmetic
  \<open>undefined\<close> converts to \<open>NaN\<close>, and \<open>v || 0\<close> replaces the falsy values
  (\<open>undefined\<close>, \<open>NaN\<close> and zero) by \<open>0\<close>.
\<close>

definition toNumber :: "jsnum option \<Rightarrow> jsnum" where
  "toNumber v = (case v of None \<Rightarrow> NaN | Some n \<Rightarrow> n)"

definition or0 :: "jsnum option \<Rightarrow> jsnum" where
  "or0 v = (case v of None \<Rightarrow> Num 0
            | Some n \<Rightarrow> if n = NaN \<or> n = Num 0 then Num 0 else n)"


section \<open>Leaflet points, positions and bounds\<close>

text \<open>
  \<open>L.Point\<close>, \<open>L.LatLng\<close> and \<open>L.Bounds\<close> belong to Leaflet, the library the overlay
  extends. The source uses \<open>add\<close>, \<open>subtract\<close> and \<open>divideBy\<close>, which work on each
  coordinate and return a new point, and \<open>new L.Bounds(a, b)\<close>, which extends an empty
  box by \<open>a\<close> and then by \<open>b\<close> with \<open>Math.min\<close> and \<open>Math.max\<close>. The coordinate
  fields \<open>x\<close> and \<open>y\<close> are written \<open>px\<close> and \<open>py\<close>, the corners \<open>min\<close> and
  \<open>max\<close> are written \<open>bmin\<close> and \<open>bmax\<close>.
\<close>

record Point =
  px :: jsnum
  py :: jsnum

record LatLng =
  lat :: jsnum
  lng :: jsnum

record Bounds =
  bmin :: Point
  bmax :: Point

definition Point_add :: "Point \<Rightarrow> Point \<Rightarrow> Point" where
  "Point_add a b = \<lparr>px = px a + px b, py = py a + py b\<rparr>"

definition Point_subtract :: "Point \<Rightarrow> Point \<Rightarrow> Point" where
  "Point_subtract a b = \<lparr>px = px a - px b, py = py a - py b\<rparr>"

definition Point_divideBy :: "Point \<Rightarrow> jsnum \<Rightarrow> Point" where
  "Point_divideBy a n = \<lparr>px = px a / n, py = py a / n\<rparr>"

definition new_Bounds :: "Point \<Rightarrow> Point \<Rightarrow> Bounds" where
  "new_Bounds a b =
     \<lparr>bmin = \<lparr>px = Math_min (px b) (px a), py = Math_min (py b) (py a)\<rparr>,
      bmax = \<lparr>px = Math_max (px b) (px a), py = Math_max (py b) (py a)\<rparr>\<rparr>"

section \<open>The radar descriptor\<close>

text \<open>
  The object built by \<open>L.Radar.radarDescriptor\<close>. Its fields \<open>_minorRadius\<close>,
  \<open>_majorRadius\<close>, \<open>_mRadius\<close>, \<open>_nRadius\<close>, \<open>_startAngle\<close>, \<open>_endAngle\<close>,
  \<open>_middleAngle\<close> and \<open>type\<close> are written without the underscore (\<open>type\<close> as
  \<open>type_tag\<close>). The default descriptor of the class options has none of \<open>_mRadius\<close>,
  \<open>_nRadius\<close>, \<open>_middleAngle\<close> and \<open>type\<close>, and the revision of the file that draws one
  arc never sets \<open>_middleAngle\<close>: these fields are optional.
\<close>

record RadarDescriptor =
  minorRadius :: jsnum
  majorRadius :: jsnum
  mRadius :: "jsnum option"
  nRadius :: "jsnum option"
  startAngle :: jsnum
  endAngle :: jsnum
  middleAngle :: "jsnum option"
  type_tag :: "string option"

text \<open>
  The factory of \<^verbatim>\<open>l.radar.js\<close>. An omitted argument is \<open>None\<close>.
\<close>

definition radarDescriptor ::
  "jsnum option \<Rightarrow> jsnum option \<Rightarrow> jsnum option \<Rightarrow> jsnum option \<Rightarrow> RadarDescriptor" where
  "radarDescriptor minorRadius_arg majorRadius_arg startAngle_arg endAngle_arg =
     \<lparr>minorRadius = or0 minorRadius_arg,
      majorRadius = or0 majorRadius_arg,
      mRadius = Some (or0 majorRadius_arg),
      nRadius = Some (or0 minorRadius_arg),
      startAngle = or0 startAngle_arg,
      endAngle = or0 endAngle_arg,
      middleAngle = Some ((or0 startAngle_arg + or0 endAngle_arg) / Num 2),
      type_tag = Some ''RadarDescriptor''\<rparr>"

definition createVertex :: "jsnum \<Rightarrow> jsnum \<Rightarrow> Point \<Rightarrow> Point" where
  "createVertex radius angle point =
     \<lparr>px = radius * Math_cos angle + px point,
      py = radius * Math_sin angle + py point\<rparr>"

text \<open>
  \<open>getPath\<close> of \<^verbatim>\<open>l.radar.js\<close>, which draws each arc in two halves. A method call is a
  function from the objects the body can reach (\<open>this\<close> and the argument \<open>p\<close>) to the
  returned value and those objects after the call. \<open>str\<close> is the conversion of a number
  to a string that \<open>+\<close> applies to a number operand.
\<close>

definition getPath ::
  "(jsnum \<Rightarrow> string) \<Rightarrow> RadarDescriptor \<Rightarrow> Point \<Rightarrow> string \<times> RadarDescriptor \<times> Point" where
  "getPath str this p =
     (let minorRadius' = minorRadius this;
          majorRadius' = majorRadius this;
          v1 = createVertex minorRadius' (startAngle this) p;
          v2 = createVertex majorRadius' (startAngle this) p;
          v3 = createVertex majorRadius' (toNumber (middleAngle this)) p;
          v4 = createVertex majorRadius' (endAngle this) p;
          v5 = createVertex minorRadius' (endAngle this) p;
          v6 = createVertex minorRadius' (toNumber (middleAngle this)) p
      in (''M '' @ str (px v1) @ '' '' @ str (py v1) @ '' '' @
          ''L '' @ str (px v2) @ '' '' @ str (py v2) @ '' '' @
          ''A '' @ str majorRadius' @ '' '' @ str majorRadius' @ '' 0 0 1 '' @
          str (px v3) @ '' '' @ str (py v3) @ '' '' @
          ''A '' @ str majorRadius' @ '' '' @ str majorRadius' @ '' 0 0 1 '' @
          str (px v4) @ '' '' @ str (py v4) @ '' '' @
          ''L '' @ str (px v5) @ '' '' @ str (py v5) @ '' '' @
          ''A '' @ str minorRadius' @ '' '' @ str minorRadius' @ '' 0 0 0 '' @
          str (px v6) @ '' '' @ str (py v6) @ '' '' @
          ''A '' @ str minorRadius' @ '' '' @ str minorRadius' @ '' 0 0 0 '' @
          str (px v1) @ '' '' @ str (py v1) @
          '' Z'', this, p))"

text \<open>
  The revision \<^verbatim>\<open>src/unnamed/part_001\<close> of the same file: its factory sets no
  \<open>_middleAngle\<close>, and its \<open>getPath\<close> draws each arc in one piece. The large-arc flag
  \<open>majorArc\<close> is computed from the factory's own arguments \<open>startAngle\<close> and
  \<open>endAngle\<close>, which the method closes over; they are the first two arguments of
  \<open>getPath_p1\<close> after \<open>str\<close>.
\<close>

definition radarDescriptor_p1 ::
  "jsnum option \<Rightarrow> jsnum option \<Rightarrow> jsnum option \<Rightarrow> jsnum option \<Rightarrow> RadarDescriptor" where
  "radarDescriptor_p1 minorRadius_arg majorRadius_arg startAngle_arg endAngle_arg =
     \<lparr>minorRadius = or0 minorRadius_arg,
      majorRadius = or0 majorRadius_arg,
      mRadius = Some (or0 majorRadius_arg),
      nRadius = Some (or0 minorRadius_arg),
      startAngle = or0 startAngle_arg,
      endAngle = or0 endAngle_arg,
      middleAngle = None,
      type_tag = Some ''RadarDescriptor''\<rparr>"

definition majorArc_p1 :: "jsnum option \<Rightarrow> jsnum option \<Rightarrow> jsnum" where
  "majorArc_p1 startAngle_arg endAngle_arg =
     (if js_gt (toNumber endAngle_arg - toNumber startAngle_arg) Math_PI then Num 1 else Num 0)"

definition getPath_p1 ::
  "(jsnum \<Rightarrow> string) \<Rightarrow> jsnum option \<Rightarrow> jsnum option \<Rightarrow> RadarDescriptor \<Rightarrow> Point
     \<Rightarrow> string \<times> RadarDescriptor \<times> Point" where
  "getPath_p1 str startAngle_arg endAngle_arg this p =
     (let minorRadius' = minorRadius this;
          majorRadius' = majorRadius this;
          majorArc = majorArc_p1 startAngle_arg endAngle_arg;
          firstVertex = \<lparr>px = minorRadius' * Math_cos (startAngle this) + px p,
                         py = minorRadius' * Math_sin (startAngle this) + py p\<rparr>;
          secondVertex = \<lparr>px = majorRadius' * Math_cos (startAngle this) + px p,
                          py = majorRadius' * Math_sin (startAngle this) + py p\<rparr>;
          thirdVertex = \<lparr>px = majorRadius' * Math_cos (endAngle this) + px p,
                         py = majorRadius' * Math_sin (endAngle this) + py p\<rparr>;
          fourthVertex = \<lparr>px = minorRadius' * Math_cos (endAngle this) + px p,
                          py = minorRadius' * Math_sin (endAngle this) + py p\<rparr>
      in (''M '' @ str (px firstVertex) @ '' '' @ str (py firstVertex) @ '' '' @
          ''L '' @ str (px secondVertex) @ '' '' @ str (py secondVertex) @ '' '' @
          ''A '' @ str majorRadius' @ '' '' @ str majorRadius' @ '' 0 '' @ str majorArc @ '' 1 '' @
          str (px thirdVertex) @ '' '' @ str (py thirdVertex) @ '' '' @
          ''L '' @ str (px fourthVertex) @ '' '' @ str (py fourthVertex) @ '' '' @
          ''A '' @ str minorRadius' @ '' '' @ str minorRadius' @ '' 0 '' @ str majorArc @ '' 0 '' @
          str (px firstVertex) @ '' '' @ str (py firstVertex), this, p))"

section \<open>The path grammar\<close>

text \<open>
  The commands of the path grammar the specification names: \<open>M\<close> (move to), \<open>L\<close> (line
  to), \<open>A\<close> (arc to, with its two radii, the large-arc flag, the sweep flag and the end
  point; the rotation is always 0 here) and \<open>Z\<close> (close). \<open>svg_path\<close> writes a list of
  commands the way the source does, separated by single spaces.
\<close>

datatype path_cmd =
  MoveTo Point
| LineTo Point
| ArcTo jsnum jsnum bool bool Point
| ClosePath

definition flag :: "bool \<Rightarrow> string" where
  "flag b = (if b then ''1'' else ''0'')"

fun svg_cmd :: "(jsnum \<Rightarrow> string) \<Rightarrow> path_cmd \<Rightarrow> string" where
  "svg_cmd str (MoveTo v) = ''M '' @ str (px v) @ '' '' @ str (py v)"
| "svg_cmd str (LineTo v) = ''L '' @ str (px v) @ '' '' @ str (py v)"
| "svg_cmd str (ArcTo rx ry large sweep v) =
     ''A '' @ str rx @ '' '' @ str ry @ '' 0 '' @ flag large @ '' '' @ flag sweep @ '' '' @
     str (px v) @ '' '' @ str (py v)"
| "svg_cmd str ClosePath = ''Z''"

fun svg_path :: "(jsnum \<Rightarrow> string) \<Rightarrow> path_cmd list \<Rightarrow> string" where
  "svg_path str [] = []"
| "svg_path str [c] = svg_cmd str c"
| "svg_path str (c # cs) = svg_cmd str c @ '' '' @ svg_path str cs"

text \<open>Where a path starts, and where the pen is after its last drawing command.\<close>

fun path_start :: "path_cmd list \<Rightarrow> Point option" where
  "path_start (MoveTo v # cs) = Some v"
| "path_start _ = None"

fun pen_after :: "Point option \<Rightarrow> path_cmd list \<Rightarrow> Point option" where
  "pen_after pen [] = pen"
| "pen_after pen (MoveTo v # cs) = pen_after (Some v) cs"
| "pen_after pen (LineTo v # cs) = pen_after (Some v) cs"
| "pen_after pen (ArcTo rx ry large sweep v # cs) = pen_after (Some v) cs"
| "pen_after pen (ClosePath # cs) = pen_after pen cs"

text \<open>
  The number-to-string conversion on the values the closed examples print: \<open>NaN\<close>, the
  infinities and the integers below \<open>10^21\<close> in decimal, as ECMAScript writes them. The
  decimal expansion of other values is not modelled: they print as \<open>?\<close>.
\<close>

fun decimal :: "nat \<Rightarrow> string" where
  "decimal n =
     (if n < 10 then [''0123456789'' ! n]
      else decimal (n div 10) @ [''0123456789'' ! (n mod 10)])"

declare decimal.simps [simp del]

definition toString :: "jsnum \<Rightarrow> string" where
  "toString n =
     (case n of
        NaN \<Rightarrow> ''NaN''
      | PInf \<Rightarrow> ''Infinity''
      | NInf \<Rightarrow> ''-Infinity''
      | Num r \<Rightarrow>
          (if r = of_int \<lfloor>r\<rfloor>
           then (if r < 0 then ''-'' @ decimal (nat (- \<lfloor>r\<rfloor>)) else decimal (nat \<lfloor>r\<rfloor>))
           else ''?''))"

section \<open>The overlay\<close>

text \<open>
  What \<open>_project\<close> and \<open>_updateBounds\<close> ask of Leaflet once the overlay is on a map:
  the map's \<open>project\<close>, \<open>unproject\<close>, \<open>getPixelOrigin\<close> and \<open>latLngToLayerPoint\<close>,
  the \<open>project\<close> and \<open>unproject\<close> of its CRS, whether the CRS measures distances as
  \<open>L.CRS.Earth\<close> does (\<open>crs.distance === L.CRS.Earth.distance\<close>), the constant
  \<open>L.CRS.Earth.R\<close>, and the answer of the inherited \<open>_clickTolerance()\<close>. None of this
  code is in the repository: it is a parameter of the model.
\<close>

record LMap =
  map_project :: "LatLng \<Rightarrow> Point"
  map_unproject :: "Point \<Rightarrow> LatLng"
  getPixelOrigin :: Point
  latLngToLayerPoint :: "LatLng \<Rightarrow> Point"
  crs_project :: "LatLng \<Rightarrow> Point"
  crs_unproject :: "Point \<Rightarrow> LatLng"
  crs_distance_is_Earth :: bool
  Earth_R :: jsnum
  clickTolerance :: jsnum

text \<open>
  The options object passed to the constructor, each property optional, and the options
  of the instance after \<open>L.setOptions\<close> has laid the given properties over the defaults
  of the class.
\<close>

record RadarOptions =
  opt_fill :: "bool option"
  opt_radarDescriptor :: "RadarDescriptor option"

record Options =
  options_fill :: bool
  options_radarDescriptor :: RadarDescriptor

text \<open>
  The instance. \<open>this._radarDescriptor\<close> and \<open>this.options.radarDescriptor\<close> are one
  object after construction, kept here once as \<open>this_radarDescriptor\<close>; \<open>_map\<close>,
  \<open>_point\<close> and \<open>_pxBounds\<close> are \<open>undefined\<close> until Leaflet adds the layer to a map.
\<close>

record Radar =
  this_options_fill :: bool
  this_latlng :: LatLng
  this_radarDescriptor :: RadarDescriptor
  this_map :: "LMap option"
  this_point :: "Point option"
  this_pxBounds :: "Bounds option"

datatype js_error = TypeError | InvalidLatLng

definition default_radarDescriptor :: RadarDescriptor where
  "default_radarDescriptor =
     \<lparr>minorRadius = Num 0, majorRadius = Num 0, mRadius = None, nRadius = None,
      startAngle = Num 0, endAngle = Num 0, middleAngle = None, type_tag = None\<rparr>"

definition setOptions :: "RadarOptions option \<Rightarrow> Options" where
  "setOptions options =
     \<lparr>options_fill =
        (case options of None \<Rightarrow> True
         | Some given \<Rightarrow> (case opt_fill given of None \<Rightarrow> True | Some b \<Rightarrow> b)),
      options_radarDescriptor =
        (case options of None \<Rightarrow> default_radarDescriptor
         | Some given \<Rightarrow>
             (case opt_radarDescriptor given of None \<Rightarrow> default_radarDescriptor
              | Some rd \<Rightarrow> rd))\<rparr>"

text \<open>
  \<open>initialize\<close>. Reading \<open>options.radarDescriptor\<close> when \<open>options\<close> is \<open>undefined\<close>,
  and reading \<open>.type\<close> when \<open>options.radarDescriptor\<close> is \<open>undefined\<close>, throw a
  \<open>TypeError\<close>.
\<close>

definition Radar_initialize :: "LatLng \<Rightarrow> RadarOptions option \<Rightarrow> js_error + Radar" where
  "Radar_initialize latlng options =
     (let this_options = setOptions options;
          this = \<lparr>this_options_fill = options_fill this_options,
                  this_latlng = latlng,
                  this_radarDescriptor = options_radarDescriptor this_options,
                  this_map = None, this_point = None, this_pxBounds = None\<rparr>
      in case options of
           None \<Rightarrow> Inl TypeError
         | Some given \<Rightarrow>
             (case opt_radarDescriptor given of
                None \<Rightarrow> Inl TypeError
              | Some rd \<Rightarrow>
                  (if type_tag rd = Some ''RadarDescriptor''
                   then Inr (this\<lparr>this_radarDescriptor := rd\<rparr>)
                   else Inr (this\<lparr>this_radarDescriptor :=
                                     options_radarDescriptor this_options\<rparr>))))"

text \<open>The factory \<open>L.radar\<close>.\<close>

definition L_radar :: "LatLng \<Rightarrow> RadarOptions option \<Rightarrow> js_error + Radar" where
  "L_radar latlng options = Radar_initialize latlng options"

text \<open>
  \<open>_updateBounds\<close>. Off a map there is no renderer for \<open>_clickTolerance()\<close> to ask, and
  before the first projection \<open>this._point\<close> is \<open>undefined\<close>: both throw.
\<close>

definition Radar_updateBounds :: "Radar \<Rightarrow> js_error + Radar" where
  "Radar_updateBounds this =
     (case this_map this of
        None \<Rightarrow> Inl TypeError
      | Some map' \<Rightarrow>
          (case this_point this of
             None \<Rightarrow> Inl TypeError
           | Some point \<Rightarrow>
               (let r = majorRadius (this_radarDescriptor this);
                    w = clickTolerance map';
                    p = \<lparr>px = r + w, py = r + w\<rparr>
                in Inr (this\<lparr>this_pxBounds :=
                          Some (new_Bounds (Point_subtract point p) (Point_subtract point p))\<rparr>))))"

text \<open>
  \<open>_project\<close>, statement by statement. The descriptor is updated in place, so the second
  block reads \<open>_nRadius\<close> from the descriptor the first block has written to.
\<close>

definition Radar_project :: "Radar \<Rightarrow> js_error + Radar" where
  "Radar_project this =
     (case this_map this of
        None \<Rightarrow> Inl TypeError
      | Some map' \<Rightarrow>
          (let lng' = lng (this_latlng this);
               lat' = lat (this_latlng this);
               rd = this_radarDescriptor this;
               this1 =
                 (if crs_distance_is_Earth map' then
                    (let d = Math_PI / Num 180;
                         latR = (toNumber (mRadius rd) / Earth_R map') / d;
                         top = map_project map' \<lparr>lat = lat' + latR, lng = lng'\<rparr>;
                         bottom = map_project map' \<lparr>lat = lat' - latR, lng = lng'\<rparr>;
                         p = Point_divideBy (Point_add top bottom) (Num 2);
                         lat2 = lat (map_unproject map' p);
                         lngR = Math_acos ((Math_cos (latR * d) -
                                            Math_sin (lat' * d) * Math_sin (lat2 * d)) /
                                           (Math_cos (lat' * d) * Math_cos (lat2 * d))) / d;
                         lngR = (if isNaN lngR \<or> strict_eq lngR (Num 0)
                                 then latR / Math_cos (Math_PI / Num 180 * lat') else lngR);
                         point1 = Point_subtract p (getPixelOrigin map');
                         rd1 = rd\<lparr>majorRadius :=
                                 (if isNaN lngR then Num 0
                                  else Math_max (Math_round (px p -
                                         px (map_project map' \<lparr>lat = lat2, lng = lng' - lngR\<rparr>)))
                                         (Num 1))\<rparr>;
                         latR = (toNumber (nRadius rd1) / Earth_R map') / d;
                         top = map_project map' \<lparr>lat = lat' + latR, lng = lng'\<rparr>;
                         bottom = map_project map' \<lparr>lat = lat' - latR, lng = lng'\<rparr>;
                         p = Point_divideBy (Point_add top bottom) (Num 2);
                         lat2 = lat (map_unproject map' p);
                         lngR = Math_acos ((Math_cos (latR * d) -
                                            Math_sin (lat' * d) * Math_sin (lat2 * d)) /
                                           (Math_cos (lat' * d) * Math_cos (lat2 * d))) / d;
                         lngR = (if isNaN lngR \<or> strict_eq lngR (Num 0)
                                 then latR / Math_cos (Math_PI / Num 180 * lat') else lngR);
                         rd2 = rd1\<lparr>minorRadius :=
                                 (if isNaN lngR then Num 0
                                  else Math_max (Math_round (px p -
                                         px (map_project map' \<lparr>lat = lat2, lng = lng' - lngR\<rparr>)))
                                         (Num 1))\<rparr>
                     in this\<lparr>this_point := Some point1, this_radarDescriptor := rd2\<rparr>)
                  else
                    (let latlng2 = crs_unproject map'
                           (Point_subtract (crs_project map' (this_latlng this))
                              \<lparr>px = toNumber (mRadius rd), py = Num 0\<rparr>);
                         point1 = latLngToLayerPoint map' (this_latlng this);
                         rd1 = rd\<lparr>majorRadius :=
                                 px point1 - px (latLngToLayerPoint map' latlng2)\<rparr>
                     in this\<lparr>this_point := Some point1, this_radarDescriptor := rd1\<rparr>));
               this2 = this1\<lparr>this_point :=
                         Some (latLngToLayerPoint map' (this_latlng this1))\<rparr>
           in Radar_updateBounds this2))"

section \<open>The radius projection, step by step\<close>

text \<open>
  The steps of the spherical branch, named as the specification names them: the angular
  radius \<open>latR\<close>, the midpoint \<open>p\<close> of the two projected points, the law-of-cosines value
  of \<open>lngR\<close>, the fallback, and the pixel radius stored. \<open>projectRadius\<close> chains them;
  lemma \<open>Radar_project_Earth\<close> below shows that both blocks of \<open>_project\<close> compute it.
\<close>

definition deg :: jsnum where
  "deg = Math_PI / Num 180"

definition latR_of :: "LMap \<Rightarrow> jsnum \<Rightarrow> jsnum" where
  "latR_of map' geoRadius = (geoRadius / Earth_R map') / deg"

definition midpoint_px :: "LMap \<Rightarrow> jsnum \<Rightarrow> jsnum \<Rightarrow> jsnum \<Rightarrow> Point" where
  "midpoint_px map' lat' lng' latR =
     Point_divideBy
       (Point_add (map_project map' \<lparr>lat = lat' + latR, lng = lng'\<rparr>)
                  (map_project map' \<lparr>lat = lat' - latR, lng = lng'\<rparr>)) (Num 2)"

definition lngR_acos :: "jsnum \<Rightarrow> jsnum \<Rightarrow> jsnum \<Rightarrow> jsnum" where
  "lngR_acos lat' lat2 latR =
     Math_acos ((Math_cos (latR * deg) - Math_sin (lat' * deg) * Math_sin (lat2 * deg)) /
                (Math_cos (lat' * deg) * Math_cos (lat2 * deg))) / deg"

definition lngR_fallback :: "jsnum \<Rightarrow> jsnum \<Rightarrow> jsnum \<Rightarrow> jsnum" where
  "lngR_fallback lat' latR lngR =
     (if isNaN lngR \<or> strict_eq lngR (Num 0)
      then latR / Math_cos (Math_PI / Num 180 * lat') else lngR)"

definition pixelRadius :: "LMap \<Rightarrow> Point \<Rightarrow> jsnum \<Rightarrow> jsnum \<Rightarrow> jsnum \<Rightarrow> jsnum" where
  "pixelRadius map' p lat2 lng' lngR =
     (if isNaN lngR then Num 0
      else Math_max (Math_round (px p -
             px (map_project map' \<lparr>lat = lat2, lng = lng' - lngR\<rparr>))) (Num 1))"

definition lngR_of :: "LMap \<Rightarrow> jsnum \<Rightarrow> jsnum \<Rightarrow> jsnum \<Rightarrow> jsnum" where
  "lngR_of map' lat' lng' geoRadius =
     (let latR = latR_of map' geoRadius;
          p = midpoint_px map' lat' lng' latR;
          lat2 = lat (map_unproject map' p)
      in lngR_fallback lat' latR (lngR_acos lat' lat2 latR))"

definition projectRadius :: "LMap \<Rightarrow> jsnum \<Rightarrow> jsnum \<Rightarrow> jsnum \<Rightarrow> jsnum" where
  "projectRadius map' lat' lng' geoRadius =
     (let latR = latR_of map' geoRadius;
          p = midpoint_px map' lat' lng' latR;
          lat2 = lat (map_unproject map' p)
      in pixelRadius map' p lat2 lng' (lngR_of map' lat' lng' geoRadius))"

section \<open>The pass with Leaflet's position check\<close>

text \<open>
  \<open>map.project\<close> converts the array \<open>[a, b]\<close> it is given with \<open>L.latLng\<close>, whose
  constructor throws \<open>Error('Invalid LatLng object')\<close> when \<open>isNaN(a) || isNaN(b)\<close>; the
  same constructor builds the position that \<open>unproject\<close> returns. \<open>Radar_project\<close> above
  takes the map's functions as total and leaves this check out. \<open>Radar_project_checked\<close>
  is the same pass with the check at every position handed to Leaflet or built by it:
  \<open>projectRadius_checked\<close> is lines 77 to 91 of \<^verbatim>\<open>l.radar.js\<close> (and, with \<open>_nRadius\<close>,
  lines 93 to 105). Lemma \<open>Radar_project_checked_returns\<close> below shows that a checked pass
  that returns, returns what \<open>Radar_project\<close> returns.
\<close>

definition invalid_LatLng :: "jsnum \<Rightarrow> jsnum \<Rightarrow> bool" where
  "invalid_LatLng a b = (isNaN a \<or> isNaN b)"

definition projectRadius_checked :: "LMap \<Rightarrow> jsnum \<Rightarrow> jsnum \<Rightarrow> jsnum \<Rightarrow> js_error + jsnum" where
  "projectRadius_checked map' lat' lng' geoRadius =
     (let d = Math_PI / Num 180;
          latR = (geoRadius / Earth_R map') / d
      in if invalid_LatLng (lat' + latR) lng' then Inl InvalidLatLng
         else if invalid_LatLng (lat' - latR) lng' then Inl InvalidLatLng
         else
           (let top = map_project map' \<lparr>lat = lat' + latR, lng = lng'\<rparr>;
                bottom = map_project map' \<lparr>lat = lat' - latR, lng = lng'\<rparr>;
                p = Point_divideBy (Point_add top bottom) (Num 2);
                latlng2 = map_unproject map' p
            in if invalid_LatLng (lat latlng2) (lng latlng2) then Inl InvalidLatLng
               else
                 (let lat2 = lat latlng2;
                      lngR = Math_acos ((Math_cos (latR * d) -
                                         Math_sin (lat' * d) * Math_sin (lat2 * d)) /
                                        (Math_cos (lat' * d) * Math_cos (lat2 * d))) / d;
                      lngR = (if isNaN lngR \<or> strict_eq lngR (Num 0)
                              then latR / Math_cos (Math_PI / Num 180 * lat') else lngR)
                  in if isNaN lngR then Inr (Num 0)
                     else if invalid_LatLng lat2 (lng' - lngR) then Inl InvalidLatLng
                     else Inr (Math_max (Math_round (px p -
                            px (map_project map' \<lparr>lat = lat2, lng = lng' - lngR\<rparr>)))
                            (Num 1)))))"

definition Radar_project_checked :: "Radar \<Rightarrow> js_error + Radar" where
  "Radar_project_checked this =
     (case this_map this of
        None \<Rightarrow> Inl TypeError
      | Some map' \<Rightarrow>
          (let lng' = lng (this_latlng this);
               lat' = lat (this_latlng this);
               rd = this_radarDescriptor this
           in if crs_distance_is_Earth map' then
                (case projectRadius_checked map' lat' lng' (toNumber (mRadius rd)) of
                   Inl e \<Rightarrow> Inl e
                 | Inr major \<Rightarrow>
                     (case projectRadius_checked map' lat' lng' (toNumber (nRadius rd)) of
                        Inl e \<Rightarrow> Inl e
                      | Inr minor \<Rightarrow>
                          Radar_updateBounds
                            (this\<lparr>this_radarDescriptor :=
                                     rd\<lparr>majorRadius := major, minorRadius := minor\<rparr>,
                                   this_point :=
                                     Some (latLngToLayerPoint map' (this_latlng this))\<rparr>)))
              else
                (let latlng2 = crs_unproject map'
                       (Point_subtract (crs_project map' (this_latlng this))
                          \<lparr>px = toNumber (mRadius rd), py = Num 0\<rparr>)
                 in if invalid_LatLng (lat latlng2) (lng latlng2) then Inl InvalidLatLng
                    else
                      (let point1 = latLngToLayerPoint map' (this_latlng this);
                           rd1 = rd\<lparr>majorRadius :=
                                   px point1 - px (latLngToLayerPoint map' latlng2)\<rparr>
                       in Radar_updateBounds
                            (this\<lparr>this_radarDescriptor := rd1,
                                   this_point := Some point1\<rparr>)))))"

text \<open>
  A projection is finite when it sends finite positions to finite pixels and back.
\<close>

definition finite_projection :: "LMap \<Rightarrow> bool" where
  "finite_projection map' =
     ((\<forall>la lo. \<exists>x y. map_project map' \<lparr>lat = Num la, lng = Num lo\<rparr> = \<lparr>px = Num x, py = Num y\<rparr>) \<and>
      (\<forall>x y. \<exists>la lo. map_unproject map' \<lparr>px = Num x, py = Num y\<rparr> = \<lparr>lat = Num la, lng = Num lo\<rparr>))"

section \<open>The sector as path commands\<close>

text \<open>
  The specification's vertex for radius \<open>r\<close>, angle \<open>\<theta>\<close> and anchor \<open>p\<close>, and its two
  constructions of the sector: each arc in two halves split at the middle angle, closed
  by \<open>Z\<close>; or each arc in one piece with a large-arc flag.
\<close>

definition vertex :: "jsnum \<Rightarrow> jsnum \<Rightarrow> Point \<Rightarrow> Point" where
  "vertex r \<theta> p = \<lparr>px = r * Math_cos \<theta> + px p, py = r * Math_sin \<theta> + py p\<rparr>"

definition two_arc_sector ::
  "jsnum \<Rightarrow> jsnum \<Rightarrow> jsnum \<Rightarrow> jsnum \<Rightarrow> jsnum \<Rightarrow> Point \<Rightarrow> path_cmd list" where
  "two_arc_sector inner outer start middle end' p =
     [MoveTo (vertex inner start p),
      LineTo (vertex outer start p),
      ArcTo outer outer False True (vertex outer middle p),
      ArcTo outer outer False True (vertex outer end' p),
      LineTo (vertex inner end' p),
      ArcTo inner inner False False (vertex inner middle p),
      ArcTo inner inner False False (vertex inner start p),
      ClosePath]"

definition one_arc_sector ::
  "jsnum \<Rightarrow> jsnum \<Rightarrow> jsnum \<Rightarrow> jsnum \<Rightarrow> bool \<Rightarrow> bool \<Rightarrow> Point \<Rightarrow> path_cmd list" where
  "one_arc_sector inner outer start end' outer_large inner_large p =
     [MoveTo (vertex inner start p),
      LineTo (vertex outer start p),
      ArcTo outer outer outer_large True (vertex outer end' p),
      LineTo (vertex inner end' p),
      ArcTo inner inner inner_large False (vertex inner start p)]"

section \<open>Maps and overlays for the closed examples\<close>

text \<open>
  A map whose projection multiplies degrees by a scale (the zoom), with the pixel origin
  at \<open>(0, 0)\<close>, a CRS that is the identity on coordinates, Leaflet's earth radius and a
  click tolerance of 2; and an overlay attached to it that has not been projected yet.
\<close>

definition demo_project :: "jsnum \<Rightarrow> LatLng \<Rightarrow> Point" where
  "demo_project scale ll = \<lparr>px = scale * lng ll, py = scale * lat ll\<rparr>"

definition demo_unproject :: "jsnum \<Rightarrow> Point \<Rightarrow> LatLng" where
  "demo_unproject scale pt = \<lparr>lat = py pt / scale, lng = px pt / scale\<rparr>"

definition demo_map :: "bool \<Rightarrow> jsnum \<Rightarrow> LMap" where
  "demo_map earth scale =
     \<lparr>map_project = demo_project scale,
      map_unproject = demo_unproject scale,
      getPixelOrigin = \<lparr>px = Num 0, py = Num 0\<rparr>,
      latLngToLayerPoint = demo_project scale,
      crs_project = demo_project (Num 1),
      crs_unproject = demo_unproject (Num 1),
      crs_distance_is_Earth = earth,
      Earth_R = Num 6371000,
      clickTolerance = Num 2\<rparr>"

definition demo_radar :: "LMap \<Rightarrow> LatLng \<Rightarrow> RadarDescriptor \<Rightarrow> Radar" where
  "demo_radar map' latlng rd =
     \<lparr>this_options_fill = True, this_latlng = latlng, this_radarDescriptor = rd,
      this_map = Some map', this_point = None, this_pxBounds = None\<rparr>"

definition origin :: LatLng where
  "origin = \<lparr>lat = Num 0, lng = Num 0\<rparr>"

section \<open>Arithmetic facts\<close>

lemma jsnum_half_double: "(a + a) / Num 2 = (a::jsnum)"
  by (cases a) simp_all

lemma jsnum_minus_zero: "a - Num 0 = (a::jsnum)"
  by (cases a) simp_all

lemma jsnum_plus_zero: "a + Num 0 = (a::jsnum)"
  by (cases a) simp_all

lemma deg_eq: "deg = Num (pi / 180)"
  by (simp add: deg_def Math_PI_def)

lemma Math_max_1_not_0: "Math_max a (Num 1) \<noteq> Num 0"
  by (cases a) auto

lemma pixelRadius_zero_iff: "pixelRadius m p lat2 lo lngR = Num 0 \<longleftrightarrow> isNaN lngR"
  by (simp add: pixelRadius_def Math_max_1_not_0)

lemma acos_over_deg: "Math_acos a / deg = NaN \<or> (\<exists>v. Math_acos a / deg = Num v)"
  by (cases a) (simp_all add: deg_eq)


lemma js_gt_irrefl: "\<not> js_gt a a"
  by (cases a) simp_all

lemma Math_min_same: "Math_min a a = a"
  by (cases a) simp_all

lemma Math_max_same: "Math_max a a = a"
  by (cases a) simp_all

lemma new_Bounds_same: "new_Bounds a a = \<lparr>bmin = a, bmax = a\<rparr>"
  by (simp add: new_Bounds_def Math_min_same Math_max_same)

section \<open>What a projection pass computes\<close>

lemma Radar_updateBounds_attached:
  "this_map this = Some m \<Longrightarrow> this_point this = Some pt \<Longrightarrow>
   Radar_updateBounds this =
     Inr (this\<lparr>this_pxBounds := Some (new_Bounds
        (Point_subtract pt \<lparr>px = majorRadius (this_radarDescriptor this) + clickTolerance m,
                              py = majorRadius (this_radarDescriptor this) + clickTolerance m\<rparr>)
        (Point_subtract pt \<lparr>px = majorRadius (this_radarDescriptor this) + clickTolerance m,
                              py = majorRadius (this_radarDescriptor this) + clickTolerance m\<rparr>))\<rparr>)"
  by (simp add: Radar_updateBounds_def Let_def)

text \<open>
  In the spherical branch both blocks of \<open>_project\<close> compute \<open>projectRadius\<close>, the first
  of \<open>_mRadius\<close> and the second of \<open>_nRadius\<close>; the anchor written by the first block is
  overwritten before \<open>_updateBounds\<close> runs.
\<close>

lemma Radar_project_Earth:
  assumes "this_map this = Some m" and "crs_distance_is_Earth m"
  shows "Radar_project this =
     Radar_updateBounds
       (this\<lparr>this_radarDescriptor := (this_radarDescriptor this)
                 \<lparr>majorRadius := projectRadius m (lat (this_latlng this)) (lng (this_latlng this))
                                   (toNumber (mRadius (this_radarDescriptor this))),
                  minorRadius := projectRadius m (lat (this_latlng this)) (lng (this_latlng this))
                                   (toNumber (nRadius (this_radarDescriptor this)))\<rparr>,
              this_point := Some (latLngToLayerPoint m (this_latlng this))\<rparr>)"
  using assms
  by (simp add: Radar_project_def projectRadius_def lngR_of_def pixelRadius_def lngR_fallback_def
      lngR_acos_def midpoint_px_def latR_of_def deg_def Let_def)

lemma Radar_project_flat:
  assumes "this_map this = Some m" and "\<not> crs_distance_is_Earth m"
  shows "Radar_project this =
     Radar_updateBounds
       (this\<lparr>this_radarDescriptor := (this_radarDescriptor this)
                 \<lparr>majorRadius := px (latLngToLayerPoint m (this_latlng this)) -
                     px (latLngToLayerPoint m (crs_unproject m
                           (Point_subtract (crs_project m (this_latlng this))
                              \<lparr>px = toNumber (mRadius (this_radarDescriptor this)), py = Num 0\<rparr>)))\<rparr>,
              this_point := Some (latLngToLayerPoint m (this_latlng this))\<rparr>)"
  using assms
  by (simp add: Radar_project_def Let_def)

lemma demo_simps:
  "this_map (demo_radar m c rd) = Some m"
  "this_latlng (demo_radar m c rd) = c"
  "this_radarDescriptor (demo_radar m c rd) = rd"
  "crs_distance_is_Earth (demo_map e sc) = e"
  "latLngToLayerPoint (demo_map e sc) = demo_project sc"
  "crs_project (demo_map e sc) = demo_project (Num 1)"
  "crs_unproject (demo_map e sc) = demo_unproject (Num 1)"
  "map_project (demo_map e sc) = demo_project sc"
  "map_unproject (demo_map e sc) = demo_unproject sc"
  "clickTolerance (demo_map e sc) = Num 2"
  "Earth_R (demo_map e sc) = Num 6371000"
  by (simp_all add: demo_radar_def demo_map_def)

section \<open>The bounding box\<close>

text \<open>On every map both corners of the box are the same point.\<close>

lemma project_pxBounds_one_point:
  assumes "this_map this = Some m"
  shows "\<exists>this' r. Radar_project this = Inr this' \<and>
     r = majorRadius (this_radarDescriptor this') + clickTolerance m \<and>
     this_pxBounds this' =
       Some \<lparr>bmin = Point_subtract (latLngToLayerPoint m (this_latlng this)) \<lparr>px = r, py = r\<rparr>,
             bmax = Point_subtract (latLngToLayerPoint m (this_latlng this)) \<lparr>px = r, py = r\<rparr>\<rparr>"
  using assms
  by (cases "crs_distance_is_Earth m")
    (simp_all add: Radar_project_Earth [where m = m] Radar_project_flat [where m = m]
      Radar_updateBounds_attached [where m = m] new_Bounds_same)

text \<open>
  C3. The claim: after a projection pass the pixel bounds are the square around the anchor
  with half-width \<open>r + w\<close>, from \<open>anchor - (r + w, r + w)\<close> to \<open>anchor + (r + w, r + w)\<close>.
  \<open>_updateBounds\<close> passes \<open>this._point.subtract(p)\<close> to \<open>L.Bounds\<close> twice, so both
  corners are \<open>anchor - (r + w, r + w)\<close>. Here: the descriptor of the README at the origin of
  a flat map at scale 1, outer radius 200 and click tolerance 2. The anchor is \<open>(0, 0)\<close> and
  both corners are \<open>(-202, -202)\<close>; the claim's upper corner is \<open>(202, 202)\<close>.
\<close>

theorem updateBounds_degenerate_box:
  "Radar_project (demo_radar (demo_map False (Num 1)) origin
      (radarDescriptor (Some (Num 100)) (Some (Num 200)) (Some (Num 0)) (Some (Num 4)))) =
   Inr ((demo_radar (demo_map False (Num 1)) origin
      (radarDescriptor (Some (Num 100)) (Some (Num 200)) (Some (Num 0)) (Some (Num 4))))
        \<lparr>this_point := Some \<lparr>px = Num 0, py = Num 0\<rparr>,
         this_pxBounds := Some \<lparr>bmin = \<lparr>px = Num (- 202), py = Num (- 202)\<rparr>,
                                 bmax = \<lparr>px = Num (- 202), py = Num (- 202)\<rparr>\<rparr>\<rparr>)"
  by (simp add: Radar_project_flat [where m = "demo_map False (Num 1)"] demo_simps
      Radar_updateBounds_attached [where m = "demo_map False (Num 1)"] new_Bounds_same
      radarDescriptor_def or0_def toNumber_def origin_def demo_project_def demo_unproject_def
      Point_subtract_def demo_radar_def)

section \<open>The pixel radii after a pass\<close>

text \<open>Off the spherical branch a pass returns \<open>_minorRadius\<close> as it found it.\<close>

lemma project_flat_minorRadius_kept:
  assumes "this_map this = Some m" and "\<not> crs_distance_is_Earth m"
  shows "\<exists>this'. Radar_project this = Inr this' \<and>
     minorRadius (this_radarDescriptor this') = minorRadius (this_radarDescriptor this)"
  using assms
  by (simp add: Radar_project_flat [where m = m] Radar_updateBounds_attached [where m = m])

text \<open>
  C6. The claim: every pass stores fresh values in both pixel-radius fields, in the
  non-spherical branch as in the spherical one. The non-spherical branch assigns only
  \<open>_majorRadius\<close>. Here: the descriptor of the README on a flat map at scale 2. The pass
  stores the outer radius 400, twice the geodesic 200, and leaves \<open>_minorRadius\<close> at the
  100 the factory put there, where the view gives 200.
\<close>

theorem flat_pass_keeps_minorRadius:
  "Radar_project (demo_radar (demo_map False (Num 2)) origin
      (radarDescriptor (Some (Num 100)) (Some (Num 200)) (Some (Num 0)) (Some (Num 4)))) =
   Inr ((demo_radar (demo_map False (Num 2)) origin
      ((radarDescriptor (Some (Num 100)) (Some (Num 200)) (Some (Num 0)) (Some (Num 4)))
          \<lparr>majorRadius := Num 400, minorRadius := Num 100\<rparr>))
        \<lparr>this_point := Some \<lparr>px = Num 0, py = Num 0\<rparr>,
         this_pxBounds := Some \<lparr>bmin = \<lparr>px = Num (- 402), py = Num (- 402)\<rparr>,
                                 bmax = \<lparr>px = Num (- 402), py = Num (- 402)\<rparr>\<rparr>\<rparr>)"
  by (simp add: Radar_project_flat [where m = "demo_map False (Num 2)"] demo_simps
      Radar_updateBounds_attached [where m = "demo_map False (Num 2)"] new_Bounds_same
      radarDescriptor_def or0_def toNumber_def origin_def demo_project_def demo_unproject_def
      Point_subtract_def demo_radar_def)

section \<open>Construction\<close>

lemma initialize_needs_descriptor:
  "Radar_initialize latlng None = Inl TypeError"
  "opt_radarDescriptor given = None \<Longrightarrow> Radar_initialize latlng (Some given) = Inl TypeError"
  by (simp_all add: Radar_initialize_def)

text \<open>
  C8. The claim: construction with options that hold no descriptor succeeds and uses the
  default descriptor. \<open>initialize\<close> reads \<open>options.radarDescriptor.type\<close> from its
  argument, not from the merged \<open>this.options\<close>: with no descriptor in the argument, and
  with no argument at all, the read throws.
\<close>

theorem initialize_without_descriptor_throws:
  "L_radar \<lparr>lat = Num (101 / 2), lng = Num (61 / 2)\<rparr>
     (Some \<lparr>opt_fill = None, opt_radarDescriptor = None\<rparr>) = Inl TypeError \<and>
   L_radar \<lparr>lat = Num (101 / 2), lng = Num (61 / 2)\<rparr> None = Inl TypeError"
  by (simp add: L_radar_def Radar_initialize_def)

section \<open>The spherical branch\<close>

lemma Radar_project_Earth_result:
  assumes "this_map this = Some m" and "crs_distance_is_Earth m"
  shows "\<exists>this'. Radar_project this = Inr this' \<and>
     majorRadius (this_radarDescriptor this') =
       projectRadius m (lat (this_latlng this)) (lng (this_latlng this))
         (toNumber (mRadius (this_radarDescriptor this))) \<and>
     minorRadius (this_radarDescriptor this') =
       projectRadius m (lat (this_latlng this)) (lng (this_latlng this))
         (toNumber (nRadius (this_radarDescriptor this)))"
  using assms
  by (simp add: Radar_project_Earth [where m = m] Radar_updateBounds_attached [where m = m])

lemma latR_of_zero:
  assumes "Earth_R m = Num R" and "R \<noteq> 0"
  shows "latR_of m (Num 0) = Num 0"
  using assms by (simp add: latR_of_def deg_eq)

lemma midpoint_px_zero: "midpoint_px m la lo (Num 0) = map_project m \<lparr>lat = la, lng = lo\<rparr>"
  by (simp add: midpoint_px_def jsnum_plus_zero jsnum_minus_zero Point_add_def Point_divideBy_def
      jsnum_half_double)

lemma finite_projectionD:
  assumes "finite_projection m"
  shows "\<exists>x y. map_project m \<lparr>lat = Num a, lng = Num b\<rparr> = \<lparr>px = Num x, py = Num y\<rparr>"
    and "\<exists>a' b'. map_unproject m \<lparr>px = Num x, py = Num y\<rparr> = \<lparr>lat = Num a', lng = Num b'\<rparr>"
  using assms by (simp_all add: finite_projection_def)

lemma midpoint_px_finite:
  assumes "finite_projection m"
  shows "\<exists>x y. midpoint_px m (Num la) (Num lo) (Num t) = \<lparr>px = Num x, py = Num y\<rparr>"
proof -
  obtain x1 y1 where t: "map_project m \<lparr>lat = Num (la + t), lng = Num lo\<rparr> = \<lparr>px = Num x1, py = Num y1\<rparr>"
    using finite_projectionD(1) [OF assms] by blast
  obtain x2 y2 where b: "map_project m \<lparr>lat = Num (la - t), lng = Num lo\<rparr> = \<lparr>px = Num x2, py = Num y2\<rparr>"
    using finite_projectionD(1) [OF assms] by blast
  have "midpoint_px m (Num la) (Num lo) (Num t) =
        \<lparr>px = Num ((x1 + x2) / 2), py = Num ((y1 + y2) / 2)\<rparr>"
    by (simp add: midpoint_px_def t b Point_add_def Point_divideBy_def)
  then show ?thesis
    by blast
qed

lemma lngR_fallback_finite:
  assumes "cos (pi / 180 * la) \<noteq> 0"
  shows "\<exists>v. lngR_fallback (Num la) (Num t) (Math_acos a / deg) = Num v"
  using assms acos_over_deg [of a]
  by (auto simp add: lngR_fallback_def isNaN_def strict_eq_def Math_PI_def)

lemma pixelRadius_finite:
  assumes "finite_projection m"
  shows "\<exists>k\<ge>1. pixelRadius m \<lparr>px = Num x, py = y\<rparr> (Num l2) (Num lo) (Num v) = Num (of_int k)"
proof -
  obtain x' y' where q: "map_project m \<lparr>lat = Num l2, lng = Num (lo - v)\<rparr> = \<lparr>px = Num x', py = Num y'\<rparr>"
    using finite_projectionD(1) [OF assms] by blast
  have "pixelRadius m \<lparr>px = Num x, py = y\<rparr> (Num l2) (Num lo) (Num v) =
        Num (of_int (max \<lfloor>x - x' + 1 / 2\<rfloor> 1))"
    by (simp add: pixelRadius_def isNaN_def q)
  moreover have "1 \<le> max \<lfloor>x - x' + 1 / 2\<rfloor> 1"
    by simp
  ultimately show ?thesis
    by blast
qed

lemma projectRadius_positive:
  assumes "finite_projection m" and "Earth_R m = Num R" and "0 < R"
    and "cos (pi / 180 * la) \<noteq> 0"
  shows "\<exists>k\<ge>1. projectRadius m (Num la) (Num lo) (Num g) = Num (of_int k)"
proof -
  have R: "R \<noteq> 0"
    using assms(3) by simp
  obtain t where t: "latR_of m (Num g) = Num t"
    using assms(2) R by (simp add: latR_of_def deg_eq)
  obtain x y where p: "midpoint_px m (Num la) (Num lo) (Num t) = \<lparr>px = Num x, py = Num y\<rparr>"
    using midpoint_px_finite [OF assms(1)] by blast
  obtain l2 b2 where u: "map_unproject m \<lparr>px = Num x, py = Num y\<rparr> = \<lparr>lat = Num l2, lng = Num b2\<rparr>"
    using finite_projectionD(2) [OF assms(1)] by blast
  obtain v where v: "lngR_of m (Num la) (Num lo) (Num g) = Num v"
    using lngR_fallback_finite [OF assms(4)]
    by (auto simp add: lngR_of_def Let_def t p u lngR_acos_def)
  show ?thesis
    using pixelRadius_finite [OF assms(1), of x "Num y" l2 lo v]
    by (simp add: projectRadius_def Let_def t p u v)
qed

lemma projectRadius_zero:
  assumes "Earth_R m = Num R" and "R \<noteq> 0"
  shows "projectRadius m la lo (Num 0) =
     (let p = midpoint_px m la lo (Num 0);
          lat2 = lat (map_unproject m p);
          lngR = lngR_fallback la (Num 0) (lngR_acos la lat2 (Num 0))
      in if isNaN lngR then Num 0
         else Math_max (Math_round (px p -
                px (map_project m \<lparr>lat = lat2, lng = lo - lngR\<rparr>))) (Num 1))"
  by (simp add: projectRadius_def lngR_of_def pixelRadius_def Let_def
      latR_of_zero [OF assms])

lemma lngR_fallback_zero_NaN:
  "isNaN (lngR_fallback la (Num 0) l) \<Longrightarrow> isNaN (Num 0 / Math_cos (Math_PI / Num 180 * la))"
  by (simp add: lngR_fallback_def split: if_splits)

lemma demo_zero_simps:
  "midpoint_px (demo_map True (Num 1)) (Num 0) (Num 0) (Num 0) = \<lparr>px = Num 0, py = Num 0\<rparr>"
  "lngR_acos (Num 0) (Num 0) (Num 0) = Num 0"
  "lngR_fallback (Num 0) (Num 0) (Num 0) = Num 0"
  by (simp_all add: demo_simps midpoint_px_zero demo_project_def lngR_acos_def deg_eq
      lngR_fallback_def isNaN_def strict_eq_def Math_PI_def)

text \<open>
  C1. The claim: in the spherical branch a geodesic radius of exactly 0 gives the pixel
  radius 0, the floor at 1 being bypassed for this one case, at every center and under
  every projection. As amended: a geodesic radius of exactly 0 does not bypass the floor.
  At every center and under every projection the pass stores
  \<open>Math.max(Math.round(p.x - project([lat2, lng - lngR]).x), 1)\<close>, which is never 0,
  unless \<open>lngR\<close> is still \<open>NaN\<close> after the fallback, and only then stores 0; with a
  radius of 0 that needs \<open>0 / Math.cos(lat \<cdot> \<pi>/180)\<close> to be \<open>NaN\<close>. Stated for the
  outer and for the inner radius. The statement rests on the tests of \<open>lngR\<close> against
  \<open>NaN\<close> and 0 and on \<open>Math.max\<close>, not on the value the law of cosines gives.
\<close>

theorem zero_radius_is_floored:
  assumes "this_map this = Some m" and "crs_distance_is_Earth m"
    and "Earth_R m = Num R" and "R \<noteq> 0"
  shows "\<exists>this'. Radar_project this = Inr this' \<and>
     (let lat' = lat (this_latlng this);
          lng' = lng (this_latlng this);
          p = midpoint_px m lat' lng' (Num 0);
          lat2 = lat (map_unproject m p);
          lngR = lngR_fallback lat' (Num 0) (lngR_acos lat' lat2 (Num 0));
          floored = Math_max (Math_round (px p -
                      px (map_project m \<lparr>lat = lat2, lng = lng' - lngR\<rparr>))) (Num 1)
      in floored \<noteq> Num 0 \<and>
         (isNaN lngR \<longrightarrow> isNaN (Num 0 / Math_cos (Math_PI / Num 180 * lat'))) \<and>
         (mRadius (this_radarDescriptor this) = Some (Num 0) \<longrightarrow>
            majorRadius (this_radarDescriptor this') = (if isNaN lngR then Num 0 else floored)) \<and>
         (nRadius (this_radarDescriptor this) = Some (Num 0) \<longrightarrow>
            minorRadius (this_radarDescriptor this') = (if isNaN lngR then Num 0 else floored)))"
  using Radar_project_Earth_result [OF assms(1) assms(2)]
    projectRadius_zero [OF assms(3) assms(4), of "lat (this_latlng this)" "lng (this_latlng this)"]
    lngR_fallback_zero_NaN
  by (auto simp add: Let_def toNumber_def Math_max_1_not_0)

text \<open>
  The overlay with all radii 0 at the origin of the spherical demo map: \<open>lngR\<close> is 0, not
  \<open>NaN\<close>, and both pixel radii are 1.
\<close>

theorem zero_radius_is_floored_witness:
  "\<exists>this'. Radar_project (demo_radar (demo_map True (Num 1)) origin
        (radarDescriptor None None None None)) = Inr this' \<and>
     \<not> isNaN (lngR_fallback (Num 0) (Num 0) (lngR_acos (Num 0) (Num 0) (Num 0))) \<and>
     majorRadius (this_radarDescriptor this') = Num 1 \<and>
     minorRadius (this_radarDescriptor this') = Num 1"
proof -
  let ?m = "demo_map True (Num 1)"
  let ?X = "demo_radar ?m origin (radarDescriptor None None None None)"
  have a: "this_map ?X = Some ?m" "crs_distance_is_Earth ?m" "Earth_R ?m = Num 6371000"
    by (simp_all add: demo_simps)
  have z: "mRadius (this_radarDescriptor ?X) = Some (Num 0)"
    "nRadius (this_radarDescriptor ?X) = Some (Num 0)"
    by (simp_all add: demo_simps radarDescriptor_def or0_def)
  from zero_radius_is_floored [OF a(1) a(2) a(3)] z show ?thesis
    by (auto simp add: Let_def demo_simps origin_def demo_zero_simps demo_project_def
        demo_unproject_def isNaN_def)
qed

text \<open>
  The claim fails at that overlay: the pass stores 1 in both pixel-radius fields, not 0
  (and the box is the point \<open>(-3, -3)\<close>, as in C3).
\<close>

theorem zero_radius_gives_pixel_radius_1:
  "Radar_project (demo_radar (demo_map True (Num 1)) origin
      (radarDescriptor None None None None)) =
   Inr ((demo_radar (demo_map True (Num 1)) origin
      ((radarDescriptor None None None None)\<lparr>majorRadius := Num 1, minorRadius := Num 1\<rparr>))
        \<lparr>this_point := Some \<lparr>px = Num 0, py = Num 0\<rparr>,
         this_pxBounds := Some \<lparr>bmin = \<lparr>px = Num (- 3), py = Num (- 3)\<rparr>,
                                 bmax = \<lparr>px = Num (- 3), py = Num (- 3)\<rparr>\<rparr>\<rparr>)"
proof -
  let ?m = "demo_map True (Num 1)"
  have "projectRadius ?m (Num 0) (Num 0) (Num 0) = Num 1"
    by (simp add: projectRadius_zero [where R = 6371000] demo_simps Let_def demo_zero_simps
        demo_project_def demo_unproject_def isNaN_def)
  then show ?thesis
    by (simp add: Radar_project_Earth [where m = ?m] demo_simps
      Radar_updateBounds_attached [where m = ?m] new_Bounds_same
      radarDescriptor_def or0_def toNumber_def origin_def demo_project_def
      Point_subtract_def demo_radar_def)
qed

text \<open>
  C2. In the spherical branch, for a geodesic radius greater than 0, a valid center (finite,
  the cosine of its latitude not 0) and a valid projection (finite pixels for finite
  positions and back, a positive earth radius), the pass stores an integer pixel radius of
  at least 1. Stated for the outer radius (from \<open>_mRadius\<close>) and for the inner radius
  (from \<open>_nRadius\<close>).
\<close>

theorem positive_radius_pixel_radius_ge_1:
  assumes "this_map this = Some m" and "crs_distance_is_Earth m" and "finite_projection m"
    and "Earth_R m = Num R" and "0 < R"
    and "this_latlng this = \<lparr>lat = Num la, lng = Num lo\<rparr>" and "cos (pi / 180 * la) \<noteq> 0"
  shows "\<exists>this'. Radar_project this = Inr this' \<and>
     (\<forall>g. mRadius (this_radarDescriptor this) = Some (Num g) \<and> 0 < g \<longrightarrow>
        (\<exists>k\<ge>1. majorRadius (this_radarDescriptor this') = Num (of_int k))) \<and>
     (\<forall>g. nRadius (this_radarDescriptor this) = Some (Num g) \<and> 0 < g \<longrightarrow>
        (\<exists>k\<ge>1. minorRadius (this_radarDescriptor this') = Num (of_int k)))"
  using Radar_project_Earth_result [OF assms(1) assms(2)]
    projectRadius_positive [OF assms(3) assms(4) assms(5) assms(7), of lo]
  by (auto simp add: assms(6) toNumber_def)

text \<open>The descriptor of the README at the origin of the spherical demo map.\<close>

theorem positive_radius_pixel_radius_ge_1_witness:
  "\<exists>this'. Radar_project (demo_radar (demo_map True (Num 1)) origin
        (radarDescriptor (Some (Num 100)) (Some (Num 200)) (Some (Num 0)) (Some (Num 4)))) = Inr this' \<and>
     (\<exists>k\<ge>1. majorRadius (this_radarDescriptor this') = Num (of_int k)) \<and>
     (\<exists>k\<ge>1. minorRadius (this_radarDescriptor this') = Num (of_int k))"
proof -
  let ?m = "demo_map True (Num 1)"
  let ?X = "demo_radar ?m origin
     (radarDescriptor (Some (Num 100)) (Some (Num 200)) (Some (Num 0)) (Some (Num 4)))"
  have f: "finite_projection ?m"
    by (simp add: finite_projection_def demo_simps demo_project_def demo_unproject_def)
  have a: "this_map ?X = Some ?m" "crs_distance_is_Earth ?m" "Earth_R ?m = Num 6371000"
    "this_latlng ?X = \<lparr>lat = Num 0, lng = Num 0\<rparr>"
    by (simp_all add: demo_simps origin_def)
  have g: "mRadius (this_radarDescriptor ?X) = Some (Num 200) \<and> (0::real) < 200"
    "nRadius (this_radarDescriptor ?X) = Some (Num 100) \<and> (0::real) < 100"
    by (simp_all add: demo_simps radarDescriptor_def or0_def)
  from positive_radius_pixel_radius_ge_1 [OF a(1) a(2) f a(3) _ a(4)] g show ?thesis
    by fastforce
qed

section \<open>Errors of a projection pass\<close>

text \<open>
  The checked pass in terms of the steps of the radius projection, and its relation to
  \<open>Radar_project\<close>.
\<close>

lemma projectRadius_checked_eq:
  "projectRadius_checked m la lo g =
     (if invalid_LatLng (la + latR_of m g) lo \<or> invalid_LatLng (la - latR_of m g) lo
      then Inl InvalidLatLng
      else if invalid_LatLng (lat (map_unproject m (midpoint_px m la lo (latR_of m g))))
                (lng (map_unproject m (midpoint_px m la lo (latR_of m g))))
      then Inl InvalidLatLng
      else if \<not> isNaN (lngR_of m la lo g) \<and>
              invalid_LatLng (lat (map_unproject m (midpoint_px m la lo (latR_of m g))))
                (lo - lngR_of m la lo g)
      then Inl InvalidLatLng
      else Inr (projectRadius m la lo g))"
  by (simp add: projectRadius_checked_def projectRadius_def lngR_of_def pixelRadius_def
      lngR_fallback_def lngR_acos_def midpoint_px_def latR_of_def deg_def Let_def)

lemma projectRadius_checked_returns:
  "projectRadius_checked m la lo g = Inr v \<Longrightarrow> v = projectRadius m la lo g"
  by (simp add: projectRadius_checked_eq split: if_splits)

lemma Radar_project_checked_returns:
  assumes "Radar_project_checked this = Inr this'"
  shows "Radar_project this = Inr this'"
proof (cases "this_map this")
  case None
  with assms show ?thesis
    by (simp add: Radar_project_checked_def)
next
  case (Some m)
  show ?thesis
  proof (cases "crs_distance_is_Earth m")
    case True
    with assms Some show ?thesis
      by (auto simp add: Radar_project_checked_def Let_def Radar_project_Earth [where m = m]
          split: sum.splits dest!: projectRadius_checked_returns)
  next
    case False
    with assms Some show ?thesis
      by (auto simp add: Radar_project_checked_def Let_def Radar_project_flat [where m = m]
          split: if_splits)
  qed
qed








section \<open>The frame of a projection pass\<close>

text \<open>
  C9. A projection pass of an overlay on a map returns the overlay with \<open>_mRadius\<close>,
  \<open>_nRadius\<close>, \<open>_startAngle\<close>, \<open>_endAngle\<close> and \<open>_latlng\<close> as they were: the state after
  the pass is the state before it with new values in \<open>_majorRadius\<close>, \<open>_minorRadius\<close>,
  \<open>_point\<close> and \<open>_pxBounds\<close> and in nothing else.
\<close>

theorem project_writes_only_derived_state:
  assumes "this_map this = Some m"
  shows "\<exists>this'. Radar_project this = Inr this' \<and>
     mRadius (this_radarDescriptor this') = mRadius (this_radarDescriptor this) \<and>
     nRadius (this_radarDescriptor this') = nRadius (this_radarDescriptor this) \<and>
     startAngle (this_radarDescriptor this') = startAngle (this_radarDescriptor this) \<and>
     endAngle (this_radarDescriptor this') = endAngle (this_radarDescriptor this) \<and>
     this_latlng this' = this_latlng this \<and>
     (\<exists>M N pt b. this' = this
        \<lparr>this_radarDescriptor := (this_radarDescriptor this)\<lparr>majorRadius := M, minorRadius := N\<rparr>,
         this_point := Some pt, this_pxBounds := Some b\<rparr>)"
proof (cases "crs_distance_is_Earth m")
  case True
  show ?thesis
    using assms True
    by (simp add: Radar_project_Earth [where m = m] Radar_updateBounds_attached [where m = m])
      blast
next
  case False
  have keep: "\<And>M. (this_radarDescriptor this)\<lparr>majorRadius := M\<rparr> =
      (this_radarDescriptor this)\<lparr>majorRadius := M,
         minorRadius := minorRadius (this_radarDescriptor this)\<rparr>"
    by simp
  show ?thesis
    using assms False
    apply (simp add: Radar_project_flat [where m = m] Radar_updateBounds_attached [where m = m])
    apply (subst keep)
    apply blast
    done
qed

theorem project_writes_only_derived_state_witness:
  "\<exists>this'. Radar_project (demo_radar (demo_map False (Num 2)) origin
      (radarDescriptor (Some (Num 100)) (Some (Num 200)) (Some (Num 0)) (Some (Num 4)))) = Inr this' \<and>
     mRadius (this_radarDescriptor this') = Some (Num 200) \<and>
     nRadius (this_radarDescriptor this') = Some (Num 100) \<and>
     startAngle (this_radarDescriptor this') = Num 0 \<and>
     endAngle (this_radarDescriptor this') = Num 4 \<and>
     this_latlng this' = origin"
  using project_writes_only_derived_state
    [of "demo_radar (demo_map False (Num 2)) origin
      (radarDescriptor (Some (Num 100)) (Some (Num 200)) (Some (Num 0)) (Some (Num 4)))"
      "demo_map False (Num 2)"]
  by (auto simp add: demo_simps radarDescriptor_def or0_def)

section \<open>The path string\<close>

text \<open>
  Both revisions of \<open>getPath\<close> write a list of path commands; the one-arc revision
  prints its flag with the number conversion, which gives \<open>0\<close> and \<open>1\<close> for the numbers
  0 and 1.
\<close>

lemma toString_0_1: "toString (Num 0) = ''0''" "toString (Num 1) = ''1''"
  by (simp_all add: toString_def decimal.simps [of 0] decimal.simps [of "Suc 0"])

lemma str_majorArc_p1:
  assumes "str (Num 0) = ''0''" and "str (Num 1) = ''1''"
  shows "str (majorArc_p1 s e) = flag (js_gt (toNumber e - toNumber s) Math_PI)"
  using assms by (simp add: majorArc_p1_def flag_def)

lemma getPath_cmds:
  "fst (getPath str this p) =
     svg_path str (two_arc_sector (minorRadius this) (majorRadius this) (startAngle this)
       (toNumber (middleAngle this)) (endAngle this) p)"
  by (simp add: getPath_def Let_def two_arc_sector_def createVertex_def vertex_def flag_def)

lemma getPath_p1_cmds:
  assumes "str (Num 0) = ''0''" and "str (Num 1) = ''1''"
  shows "fst (getPath_p1 str s e this p) =
     svg_path str (one_arc_sector (minorRadius this) (majorRadius this) (startAngle this)
       (endAngle this) (js_gt (toNumber e - toNumber s) Math_PI)
       (js_gt (toNumber e - toNumber s) Math_PI) p)"
  by (simp add: getPath_p1_def Let_def one_arc_sector_def vertex_def
      str_majorArc_p1 [OF assms] flag_def)

lemma radarDescriptor_p1_angles:
  assumes "s \<noteq> NaN" and "e \<noteq> NaN"
  shows "startAngle (radarDescriptor_p1 a b (Some s) (Some e)) = s"
    and "endAngle (radarDescriptor_p1 a b (Some s) (Some e)) = e"
  using assms by (auto simp add: radarDescriptor_p1_def or0_def)

text \<open>
  C4. The claim: in the one-arc construction the outer arc has large-arc flag 1 exactly
  when \<open>(endAngle - startAngle) > \<pi>\<close> (0 at a span of exactly \<open>\<pi>\<close>) and sweep flag 1, and
  the inner return arc has the complement of that large-arc flag and sweep flag 0. The
  source writes the same \<open>majorArc\<close> into both arcs. As amended: the inner return arc
  has the same large-arc flag. Stated for a descriptor whose angle fields hold the
  factory's angle arguments, as they do whenever both angles were given as numbers
  (lemma \<open>radarDescriptor_p1_angles\<close>); the flag is the program's own
  \<open>(endAngle - startAngle) > Math.PI\<close>, false when the difference equals \<open>Math.PI\<close>.
\<close>

theorem single_arc_flags:
  assumes "str (Num 0) = ''0''" and "str (Num 1) = ''1''"
    and "startAngle_arg = Some (startAngle this)" and "endAngle_arg = Some (endAngle this)"
  shows "fst (getPath_p1 str startAngle_arg endAngle_arg this p) =
     svg_path str (one_arc_sector (minorRadius this) (majorRadius this) (startAngle this)
       (endAngle this) (js_gt (endAngle this - startAngle this) Math_PI)
       (js_gt (endAngle this - startAngle this) Math_PI) p) \<and>
     (endAngle this - startAngle this = Math_PI \<longrightarrow>
        \<not> js_gt (endAngle this - startAngle this) Math_PI)"
  using getPath_p1_cmds [OF assms(1) assms(2), of startAngle_arg endAngle_arg this p]
  by (simp add: assms(3) assms(4) toNumber_def js_gt_irrefl)

text \<open>
  At radius 0: with angles 0 and 4 both flags are 1, with angles 0 and \<open>Math.PI\<close> both
  are 0.
\<close>

theorem single_arc_flags_witness:
  "fst (getPath_p1 toString (Some (Num 0)) (Some (Num 4))
         (radarDescriptor_p1 None None (Some (Num 0)) (Some (Num 4))) \<lparr>px = Num 0, py = Num 0\<rparr>) =
     svg_path toString (one_arc_sector (Num 0) (Num 0) (Num 0) (Num 4) True True
        \<lparr>px = Num 0, py = Num 0\<rparr>) \<and>
   fst (getPath_p1 toString (Some (Num 0)) (Some Math_PI)
         (radarDescriptor_p1 None None (Some (Num 0)) (Some Math_PI)) \<lparr>px = Num 0, py = Num 0\<rparr>) =
     svg_path toString (one_arc_sector (Num 0) (Num 0) (Num 0) Math_PI False False
        \<lparr>px = Num 0, py = Num 0\<rparr>)"
  using single_arc_flags [of toString "Some (Num 0)"
      "radarDescriptor_p1 None None (Some (Num 0)) (Some (Num 4))" "Some (Num 4)"
      "\<lparr>px = Num 0, py = Num 0\<rparr>"]
    single_arc_flags [of toString "Some (Num 0)"
      "radarDescriptor_p1 None None (Some (Num 0)) (Some Math_PI)" "Some Math_PI"
      "\<lparr>px = Num 0, py = Num 0\<rparr>"]
    pi_less_4
  by (simp add: toString_0_1 radarDescriptor_p1_def or0_def Math_PI_def)

text \<open>
  The claim fails at angles 0 and 4: the inner arc is written with flag 1, the flag of
  the outer arc, and the path is not the one with the complement.
\<close>

theorem inner_arc_flag_not_complement:
  "fst (getPath_p1 toString (Some (Num 0)) (Some (Num 4))
         (radarDescriptor_p1 None None (Some (Num 0)) (Some (Num 4))) \<lparr>px = Num 0, py = Num 0\<rparr>) =
     ''M 0 0 L 0 0 A 0 0 0 1 1 0 0 L 0 0 A 0 0 0 1 0 0 0'' \<and>
   fst (getPath_p1 toString (Some (Num 0)) (Some (Num 4))
         (radarDescriptor_p1 None None (Some (Num 0)) (Some (Num 4))) \<lparr>px = Num 0, py = Num 0\<rparr>) \<noteq>
     svg_path toString (one_arc_sector (Num 0) (Num 0) (Num 0) (Num 4) True (\<not> True)
        \<lparr>px = Num 0, py = Num 0\<rparr>)"
  using pi_less_4
  by (simp add: getPath_p1_def Let_def majorArc_p1_def toNumber_def Math_PI_def toString_0_1
      radarDescriptor_p1_def or0_def one_arc_sector_def vertex_def flag_def)

text \<open>
  C5. In both revisions the path returned by \<open>getPath\<close> is the sector of the
  specification: \<open>M\<close> at the inner-radius vertex at \<open>startAngle\<close>, \<open>L\<close> to the outer-radius
  vertex at \<open>startAngle\<close>, arc commands of the outer radius (sweep 1) to the outer-radius
  vertex at \<open>endAngle\<close>, \<open>L\<close> to the inner-radius vertex at \<open>endAngle\<close>, arc commands of
  the inner radius with the opposite sweep (0) back to the first vertex, where the pen
  ends; a vertex is \<open>(r \<cdot> cos \<theta> + p.x, r \<cdot> sin \<theta> + p.y)\<close>. The statement is about
  the commands written; which circle a renderer draws for an arc command is not part of
  the program.
\<close>

theorem getPath_traces_the_sector:
  "fst (getPath str this p) =
     svg_path str (two_arc_sector (minorRadius this) (majorRadius this) (startAngle this)
       (toNumber (middleAngle this)) (endAngle this) p) \<and>
   path_start (two_arc_sector inner outer start middle end' p) = Some (vertex inner start p) \<and>
   pen_after None (two_arc_sector inner outer start middle end' p) = Some (vertex inner start p) \<and>
   (str (Num 0) = ''0'' \<and> str (Num 1) = ''1'' \<longrightarrow>
      fst (getPath_p1 str startAngle_arg endAngle_arg this p) =
        svg_path str (one_arc_sector (minorRadius this) (majorRadius this) (startAngle this)
          (endAngle this) (js_gt (toNumber endAngle_arg - toNumber startAngle_arg) Math_PI)
          (js_gt (toNumber endAngle_arg - toNumber startAngle_arg) Math_PI) p)) \<and>
   path_start (one_arc_sector inner outer start end' large large' p) = Some (vertex inner start p) \<and>
   pen_after None (one_arc_sector inner outer start end' large large' p) = Some (vertex inner start p) \<and>
   vertex r \<theta> p = \<lparr>px = r * Math_cos \<theta> + px p, py = r * Math_sin \<theta> + py p\<rparr>"
  using getPath_cmds [of str this p] getPath_p1_cmds [of str startAngle_arg endAngle_arg this p]
  by (simp add: two_arc_sector_def one_arc_sector_def vertex_def)

text \<open>Both revisions at radius 0 with angles 0 and 4, printed in full.\<close>

theorem getPath_traces_the_sector_witness:
  "fst (getPath toString (radarDescriptor None None (Some (Num 0)) (Some (Num 4)))
          \<lparr>px = Num 0, py = Num 0\<rparr>) =
     ''M 0 0 L 0 0 A 0 0 0 0 1 0 0 A 0 0 0 0 1 0 0 L 0 0 A 0 0 0 0 0 0 0 A 0 0 0 0 0 0 0 Z'' \<and>
   fst (getPath_p1 toString (Some (Num 0)) (Some (Num 4))
         (radarDescriptor_p1 None None (Some (Num 0)) (Some (Num 4))) \<lparr>px = Num 0, py = Num 0\<rparr>) =
     ''M 0 0 L 0 0 A 0 0 0 1 1 0 0 L 0 0 A 0 0 0 1 0 0 0''"
  using getPath_traces_the_sector [of toString
      "radarDescriptor None None (Some (Num 0)) (Some (Num 4))" "\<lparr>px = Num 0, py = Num 0\<rparr>"]
    getPath_traces_the_sector [of toString
      "radarDescriptor_p1 None None (Some (Num 0)) (Some (Num 4))" "\<lparr>px = Num 0, py = Num 0\<rparr>"
      _ _ _ _ _ "Some (Num 0)" "Some (Num 4)"]
    pi_less_4
  by (simp add: toString_0_1 radarDescriptor_def radarDescriptor_p1_def or0_def toNumber_def
      two_arc_sector_def one_arc_sector_def vertex_def flag_def Math_PI_def)

text \<open>
  C10. The claim: for descriptors built by the factory, two calls of \<open>getPath\<close> with equal
  descriptor state and equal anchor return identical strings. In \<^verbatim>\<open>src/unnamed/part_001\<close>
  \<open>getPath\<close> takes the large-arc flag from the factory's raw arguments, while the fields
  hold the defaulted angles. Here: the factory called with the start angle omitted and
  with the start angle 0, end angle 4 and radii 0 in both. The two descriptors are equal
  field by field, yet at the same anchor the first path has large-arc flag 0 and the
  second has 1. \<open>getPath\<close> of \<^verbatim>\<open>l.radar.js\<close>, which reads the fields only, returns one
  string for both.
\<close>

theorem getPath_p1_equal_fields_different_paths:
  "radarDescriptor_p1 None None None (Some (Num 4)) =
   radarDescriptor_p1 None None (Some (Num 0)) (Some (Num 4)) \<and>
   fst (getPath_p1 toString None (Some (Num 4))
         (radarDescriptor_p1 None None None (Some (Num 4))) \<lparr>px = Num 0, py = Num 0\<rparr>) =
     ''M 0 0 L 0 0 A 0 0 0 0 1 0 0 L 0 0 A 0 0 0 0 0 0 0'' \<and>
   fst (getPath_p1 toString (Some (Num 0)) (Some (Num 4))
         (radarDescriptor_p1 None None (Some (Num 0)) (Some (Num 4))) \<lparr>px = Num 0, py = Num 0\<rparr>) =
     ''M 0 0 L 0 0 A 0 0 0 1 1 0 0 L 0 0 A 0 0 0 1 0 0 0'' \<and>
   fst (getPath toString (radarDescriptor None None None (Some (Num 4)))
         \<lparr>px = Num 0, py = Num 0\<rparr>) =
   fst (getPath toString (radarDescriptor None None (Some (Num 0)) (Some (Num 4)))
         \<lparr>px = Num 0, py = Num 0\<rparr>)"
  using pi_less_4
  by (simp add: getPath_p1_def getPath_def Let_def majorArc_p1_def toNumber_def Math_PI_def
      toString_0_1 radarDescriptor_p1_def radarDescriptor_def or0_def)

end
